theory Spec2Isabelle
  imports Main "HOL-Library.Sublist"
begin

section \<open>Characters and strings as the Python runtime sees them\<close>

text \<open>
  The parser works on Python \<open>str\<close> values, sequences of Unicode code points. A
  character of the model is a code point in the range 0..255 or the en dash U+2013, the
  one code point beyond that range that the source names (in its date-range patterns).
  The character predicates below are Python's \<open>str.isspace\<close>, \<open>str.isdigit\<close>,
  \<open>str.lower\<close> and the classes \<open>\s\<close>, \<open>\d\<close>, \<open>\w\<close> of the \<open>re\<close> module on these code
  points. \<open>str\<close> turns a literal into a text.
\<close>

datatype uchar = L char | EnDash

type_synonym ustring = "uchar list"

definition str :: "string \<Rightarrow> ustring" where
  "str s = map L s"

fun code :: "uchar \<Rightarrow> nat" where
  "code (L c) = of_char c"
| "code EnDash = 8211"

definition py_isspace :: "uchar \<Rightarrow> bool" where
  "py_isspace c =
     (let n = code c in (9 \<le> n \<and> n \<le> 13) \<or> (28 \<le> n \<and> n \<le> 32) \<or> n = 133 \<or> n = 160)"

definition is_decimal :: "uchar \<Rightarrow> bool" where
  "is_decimal c = (let n = code c in 48 \<le> n \<and> n \<le> 57)"

definition py_isdigit :: "uchar \<Rightarrow> bool" where
  "py_isdigit c = (let n = code c in (48 \<le> n \<and> n \<le> 57) \<or> n = 178 \<or> n = 179 \<or> n = 185)"

definition is_word :: "uchar \<Rightarrow> bool" where
  "is_word c =
     (let n = code c in
        (48 \<le> n \<and> n \<le> 57) \<or> (65 \<le> n \<and> n \<le> 90) \<or> n = 95 \<or> (97 \<le> n \<and> n \<le> 122)
        \<or> n = 170 \<or> n = 178 \<or> n = 179 \<or> n = 181 \<or> n = 185 \<or> n = 186
        \<or> (188 \<le> n \<and> n \<le> 190) \<or> (192 \<le> n \<and> n \<le> 214) \<or> (216 \<le> n \<and> n \<le> 246)
        \<or> (248 \<le> n \<and> n \<le> 255))"

definition lower_char :: "uchar \<Rightarrow> uchar" where
  "lower_char c =
     (let n = code c in
        if (65 \<le> n \<and> n \<le> 90) \<or> (192 \<le> n \<and> n \<le> 214) \<or> (216 \<le> n \<and> n \<le> 222)
        then L (char_of (n + 32)) else c)"

definition py_lower :: "ustring \<Rightarrow> ustring" where
  "py_lower s = map lower_char s"

text \<open>\<open>s.startswith(sub)\<close> and the substring test \<open>sub in s\<close>.\<close>

fun startswith :: "ustring \<Rightarrow> ustring \<Rightarrow> bool" where
  "startswith s [] = True"
| "startswith [] (c # sub) = False"
| "startswith (d # s) (c # sub) = (d = c \<and> startswith s sub)"

fun py_in :: "ustring \<Rightarrow> ustring \<Rightarrow> bool" where
  "py_in sub [] = (sub = [])"
| "py_in sub (c # s) = (startswith (c # s) sub \<or> py_in sub s)"

text \<open>\<open>any(p(x) for x in xs)\<close>.\<close>

fun py_any :: "('a \<Rightarrow> bool) \<Rightarrow> 'a list \<Rightarrow> bool" where
  "py_any p [] = False"
| "py_any p (x # xs) = (p x \<or> py_any p xs)"

text \<open>\<open>s.strip()\<close>: whitespace removed at both ends.\<close>

definition py_strip :: "ustring \<Rightarrow> ustring" where
  "py_strip s = rev (dropWhile py_isspace (rev (dropWhile py_isspace s)))"

text \<open>
  \<open>s.split()\<close>: the maximal runs of non-whitespace characters. The first argument holds
  the characters of the word being read, latest first.
\<close>

fun split_ws :: "ustring \<Rightarrow> ustring \<Rightarrow> ustring list" where
  "split_ws cur [] = (if cur = [] then [] else [rev cur])"
| "split_ws cur (c # s) =
     (if py_isspace c then (if cur = [] then split_ws [] s else rev cur # split_ws [] s)
      else split_ws (c # cur) s)"

definition py_split :: "ustring \<Rightarrow> ustring list" where
  "py_split s = split_ws [] s"

text \<open>\<open>s.split(sep)\<close> for a one-character separator: empty pieces are kept.\<close>

fun split_sep :: "uchar \<Rightarrow> ustring \<Rightarrow> ustring \<Rightarrow> ustring list" where
  "split_sep sep cur [] = [rev cur]"
| "split_sep sep cur (c # s) =
     (if c = sep then rev cur # split_sep sep [] s else split_sep sep (c # cur) s)"

definition py_split_on :: "uchar \<Rightarrow> ustring \<Rightarrow> ustring list" where
  "py_split_on sep s = split_sep sep [] s"

text \<open>\<open>s.isdigit()\<close> on a string: non-empty and every character a digit.\<close>

definition str_isdigit :: "ustring \<Rightarrow> bool" where
  "str_isdigit s = (s \<noteq> [] \<and> \<not> py_any (\<lambda>c. \<not> py_isdigit c) s)"

subsection \<open>Exceptions and the fallible primitives\<close>

datatype error = ValueError | IndexError | LookupError

text \<open>\<open>xs[i]\<close> for a non-negative literal index.\<close>

definition py_index :: "'a list \<Rightarrow> nat \<Rightarrow> error + 'a" where
  "py_index xs i = (if i < length xs then Inr (xs ! i) else Inl IndexError)"

text \<open>
  \<open>int(s)\<close> in base 10: surrounding whitespace is dropped, one sign is allowed, and the
  digits may be grouped by single underscores; anything else raises \<open>ValueError\<close>. The
  whitespace that \<open>int\<close> drops is narrower than that of \<open>str.isspace\<close>: the separators
  0x1C..0x1F are not part of it.
\<close>

definition int_isspace :: "uchar \<Rightarrow> bool" where
  "int_isspace c = (let n = code c in (9 \<le> n \<and> n \<le> 13) \<or> n = 32 \<or> n = 133 \<or> n = 160)"

definition int_strip :: "ustring \<Rightarrow> ustring" where
  "int_strip s = rev (dropWhile int_isspace (rev (dropWhile int_isspace s)))"

definition digit_val :: "uchar \<Rightarrow> int" where
  "digit_val c = int (code c) - 48"

definition decimal_val :: "ustring \<Rightarrow> int" where
  "decimal_val ds = foldl (\<lambda>a c. 10 * a + digit_val c) 0 ds"

fun digits_ok :: "bool \<Rightarrow> ustring \<Rightarrow> bool" where
  "digits_ok prev_digit [] = prev_digit"
| "digits_ok prev_digit (c # s) =
     (if is_decimal c then digits_ok True s
      else if c = L CHR ''_'' \<and> prev_digit then digits_ok False s
      else False)"

definition parse_digits :: "ustring \<Rightarrow> error + int" where
  "parse_digits s =
     (if digits_ok False s then Inr (decimal_val (filter is_decimal s)) else Inl ValueError)"

definition py_int :: "ustring \<Rightarrow> error + int" where
  "py_int s =
     (case int_strip s of
        [] \<Rightarrow> Inl ValueError
      | c # t \<Rightarrow>
          if c = L CHR ''-'' then (case parse_digits t of Inl e \<Rightarrow> Inl e | Inr v \<Rightarrow> Inr (- v))
          else if c = L CHR ''+'' then parse_digits t
          else parse_digits (c # t))"

section \<open>The regular expressions of the \<open>re\<close> module\<close>

text \<open>
  A backtracking matcher in the style of Python's \<open>re\<close>: for a pattern and a position it
  lists every way the pattern can match there, in the order in which the engine tries
  them (greedy repetition first the longest, alternatives left to right). The first
  element of the list is the match the engine reports.

  A position is the character before it (for \<open>\b\<close>), the rest of the subject and the
  groups captured so far (latest first).
\<close>

datatype citem = Ch uchar | Rng uchar uchar | Digit | Space

fun in_item :: "citem \<Rightarrow> uchar \<Rightarrow> bool" where
  "in_item (Ch d) c = (c = d)"
| "in_item (Rng a b) c = (code a \<le> code c \<and> code c \<le> code b)"
| "in_item Digit c = is_decimal c"
| "in_item Space c = py_isspace c"

fun in_cls :: "citem list \<Rightarrow> uchar \<Rightarrow> bool" where
  "in_cls [] c = False"
| "in_cls (i # is) c = (in_item i c \<or> in_cls is c)"

datatype rx =
    Eps
  | Cls "citem list"
  | LitI ustring
  | Seq rx rx
  | Alt rx rx
  | Opt rx
  | Rep nat "nat option" "citem list"
  | Group nat rx
  | WordB

type_synonym mstate = "uchar option \<times> ustring \<times> (nat \<times> ustring) list"

fun advance :: "nat \<Rightarrow> uchar option \<Rightarrow> ustring \<Rightarrow> uchar option \<times> ustring" where
  "advance 0 p s = (p, s)"
| "advance (Suc k) p [] = (p, [])"
| "advance (Suc k) p (c # s) = advance k (Some c) s"

definition word_before :: "uchar option \<Rightarrow> bool" where
  "word_before p = (case p of None \<Rightarrow> False | Some c \<Rightarrow> is_word c)"

definition word_after :: "ustring \<Rightarrow> bool" where
  "word_after s = (case s of [] \<Rightarrow> False | c # _ \<Rightarrow> is_word c)"

fun rmatch :: "rx \<Rightarrow> mstate \<Rightarrow> mstate list" where
  "rmatch Eps st = [st]"
| "rmatch (Cls cs) (p, s, g) =
     (case s of [] \<Rightarrow> [] | c # s' \<Rightarrow> if in_cls cs c then [(Some c, s', g)] else [])"
| "rmatch (LitI w) (p, s, g) =
     (if startswith (py_lower s) (py_lower w)
      then (case advance (length w) p s of (p', s') \<Rightarrow> [(p', s', g)]) else [])"
| "rmatch (Seq a b) st = concat (map (rmatch b) (rmatch a st))"
| "rmatch (Alt a b) st = rmatch a st @ rmatch b st"
| "rmatch (Opt a) st = rmatch a st @ [st]"
| "rmatch (Rep lo hi cs) (p, s, g) =
     (let n = length (takeWhile (in_cls cs) s);
          m = (case hi of None \<Rightarrow> n | Some h \<Rightarrow> min n h)
      in map (\<lambda>k. case advance k p s of (p', s') \<Rightarrow> (p', s', g)) (rev [lo ..< Suc m]))"
| "rmatch (Group i a) (p, s, g) =
     map (\<lambda>(p', s', g'). (p', s', (i, take (length s - length s') s) # g'))
       (rmatch a (p, s, g))"
| "rmatch WordB (p, s, g) = (if word_before p \<noteq> word_after s then [(p, s, g)] else [])"

fun seqs :: "rx list \<Rightarrow> rx" where
  "seqs [] = Eps"
| "seqs [r] = r"
| "seqs (r # rs) = Seq r (seqs rs)"

text \<open>The number of capturing groups of a pattern.\<close>

fun ngroups :: "rx \<Rightarrow> nat" where
  "ngroups (Group i a) = Suc (ngroups a)"
| "ngroups (Seq a b) = ngroups a + ngroups b"
| "ngroups (Alt a b) = ngroups a + ngroups b"
| "ngroups (Opt a) = ngroups a"
| "ngroups r = 0"

text \<open>
  The first match at a position: the matched text and the groups, or nothing.
\<close>

definition match_here ::
  "rx \<Rightarrow> uchar option \<Rightarrow> ustring \<Rightarrow> (ustring \<times> (nat \<times> ustring) list) option" where
  "match_here r p s =
     (case rmatch r (p, s, []) of
        [] \<Rightarrow> None
      | (p', s', g) # _ \<Rightarrow> Some (take (length s - length s') s, g))"

text \<open>
  \<open>re.search(r, s)\<close>: the first match at the leftmost position that has one; the result
  is what \<open>.group()\<close> of the match object returns, or \<open>None\<close>.
\<close>

fun search_from :: "rx \<Rightarrow> uchar option \<Rightarrow> ustring \<Rightarrow> ustring option" where
  "search_from r p [] = (case match_here r p [] of None \<Rightarrow> None | Some (m, g) \<Rightarrow> Some m)"
| "search_from r p (c # s) =
     (case match_here r p (c # s) of
        None \<Rightarrow> search_from r (Some c) s
      | Some (m, g) \<Rightarrow> Some m)"

definition re_search :: "rx \<Rightarrow> ustring \<Rightarrow> ustring option" where
  "re_search r s = search_from r None s"

text \<open>
  The scan behind \<open>re.findall\<close>: non-overlapping matches from left to right. The counter
  is the number of characters still covered by the previous match. None of the patterns
  below matches the empty string; after an empty match the scan simply moves on by one
  character.
\<close>

fun scan ::
  "rx \<Rightarrow> nat \<Rightarrow> uchar option \<Rightarrow> ustring \<Rightarrow> (ustring \<times> (nat \<times> ustring) list) list" where
  "scan r (Suc k) p [] = []"
| "scan r (Suc k) p (c # s) = scan r k (Some c) s"
| "scan r 0 p [] = (case match_here r p [] of None \<Rightarrow> [] | Some mg \<Rightarrow> [mg])"
| "scan r 0 p (c # s) =
     (case match_here r p (c # s) of
        None \<Rightarrow> scan r 0 (Some c) s
      | Some (m, g) \<Rightarrow> (m, g) # scan r (length m - 1) (Some c) s)"

text \<open>The text of group \<open>i\<close>; a group that took no part in the match gives the empty text.\<close>

definition group :: "(nat \<times> ustring) list \<Rightarrow> nat \<Rightarrow> ustring" where
  "group g i = (case map_of g i of None \<Rightarrow> [] | Some v \<Rightarrow> v)"

text \<open>\<open>re.findall\<close> for a pattern without groups: the matched texts.\<close>

definition re_findall :: "rx \<Rightarrow> ustring \<Rightarrow> ustring list" where
  "re_findall r s = map fst (scan r 0 None s)"

text \<open>
  \<open>re.findall\<close> for a pattern with two or more groups: for every match the tuple of the
  texts of its groups, in the order of the groups.
\<close>

definition re_findall_groups :: "rx \<Rightarrow> ustring \<Rightarrow> ustring list list" where
  "re_findall_groups r s =
     map (\<lambda>(m, g). map (group g) [1 ..< Suc (ngroups r)]) (scan r 0 None s)"

subsection \<open>The patterns of the parser\<close>

text \<open>\<^verbatim>\<open>\b[A-Za-z0-9._%+-]+@[A-Za-z0-9.-]+\.[A-Z|a-z]{2,}\b\<close>\<close>

definition email_pattern :: rx where
  "email_pattern = seqs
     [WordB,
      Rep 1 None [Rng (L CHR ''A'') (L CHR ''Z''), Rng (L CHR ''a'') (L CHR ''z''),
                  Rng (L CHR ''0'') (L CHR ''9''), Ch (L CHR ''.''), Ch (L CHR ''_''),
                  Ch (L CHR ''%''), Ch (L CHR ''+''), Ch (L CHR ''-'')],
      Cls [Ch (L CHR ''@'')],
      Rep 1 None [Rng (L CHR ''A'') (L CHR ''Z''), Rng (L CHR ''a'') (L CHR ''z''),
                  Rng (L CHR ''0'') (L CHR ''9''), Ch (L CHR ''.''), Ch (L CHR ''-'')],
      Cls [Ch (L CHR ''.'')],
      Rep 2 None [Rng (L CHR ''A'') (L CHR ''Z''), Ch (L CHR ''|''),
                  Rng (L CHR ''a'') (L CHR ''z'')],
      WordB]"

text \<open>\<^verbatim>\<open>(\+?\d{1,3}[-.\s]?)?\(?\d{3}\)?[-.\s]?\d{3}[-.\s]?\d{4}\<close>\<close>

definition sep_cls :: "citem list" where
  "sep_cls = [Ch (L CHR ''-''), Ch (L CHR ''.''), Space]"

definition phone_pattern :: rx where
  "phone_pattern = seqs
     [Opt (Group 1 (seqs [Opt (Cls [Ch (L CHR ''+'')]), Rep 1 (Some 3) [Digit],
                          Opt (Cls sep_cls)])),
      Opt (Cls [Ch (L CHR ''('')]), Rep 3 (Some 3) [Digit], Opt (Cls [Ch (L CHR '')'')]),
      Opt (Cls sep_cls), Rep 3 (Some 3) [Digit],
      Opt (Cls sep_cls), Rep 4 (Some 4) [Digit]]"

text \<open>
  The two date-range patterns, compiled with \<open>re.IGNORECASE\<close>:
  \<^verbatim>\<open>(\d{4})\s*[-D]\s*(\d{4}|present|current)\<close> and
  \<^verbatim>\<open>(\d{1,2}/\d{4})\s*[-D]\s*(\d{1,2}/\d{4}|present|current)\<close>,
  where \<open>D\<close> stands for the en dash U+2013 of the source: the separator class holds the
  hyphen and the en dash. The flag only affects the two words, which are matched up to
  case (\<open>LitI\<close>); no other part of the patterns has a cased character.
\<close>

definition dash_cls :: "citem list" where
  "dash_cls = [Ch (L CHR ''-''), Ch EnDash]"

definition year4 :: rx where
  "year4 = Rep 4 (Some 4) [Digit]"

definition open_end :: rx where
  "open_end = Alt (LitI (str ''present'')) (LitI (str ''current''))"

definition year_range_pattern :: rx where
  "year_range_pattern = seqs
     [Group 1 year4,
      Rep 0 None [Space], Cls dash_cls, Rep 0 None [Space],
      Group 2 (Alt year4 open_end)]"

definition month_year :: rx where
  "month_year = seqs [Rep 1 (Some 2) [Digit], Cls [Ch (L CHR ''/'')], Rep 4 (Some 4) [Digit]]"

definition month_range_pattern :: rx where
  "month_range_pattern = seqs
     [Group 1 month_year,
      Rep 0 None [Space], Cls dash_cls, Rep 0 None [Space],
      Group 2 (Alt month_year open_end)]"

definition experience_patterns :: "rx list" where
  "experience_patterns = [year_range_pattern, month_range_pattern]"

text \<open>\<^verbatim>\<open>\d{4}\<close>, the pattern of \<open>calculate_experience_years\<close>.\<close>

definition year_pattern :: rx where
  "year_pattern = Rep 4 (Some 4) [Digit]"

section \<open>The parser\<close>

subsection \<open>Vocabularies\<close>

definition tech_skills :: "ustring list" where
  "tech_skills = map str
     [''python'', ''java'', ''javascript'', ''react'', ''node.js'', ''sql'', ''mongodb'',
      ''postgresql'', ''mysql'', ''html'', ''css'', ''git'', ''docker'', ''kubernetes'',
      ''aws'', ''azure'', ''machine learning'', ''deep learning'', ''tensorflow'',
      ''pytorch'', ''scikit-learn'', ''pandas'', ''numpy'', ''fastapi'', ''django'',
      ''flask'', ''spring boot'', ''microservices'', ''rest api'', ''graphql'']"

definition education_keywords :: "ustring list" where
  "education_keywords = map str
     [''bachelor'', ''master'', ''phd'', ''degree'', ''university'', ''college'',
      ''education'', ''graduation'', ''b.tech'', ''m.tech'', ''mba'', ''b.sc'', ''m.sc'']"

subsection \<open>Data\<close>

record contact_info =
  name :: "ustring option"
  email :: "ustring option"
  phone :: "ustring option"

text \<open>
  An experience or education entry is a Python dict from keys to texts, kept as an
  association list; \<open>d.get(k, default)\<close> reads it.
\<close>

type_synonym pydict = "(string \<times> ustring) list"

definition dict_get :: "pydict \<Rightarrow> string \<Rightarrow> ustring \<Rightarrow> ustring" where
  "dict_get d k dflt = (case map_of d k of None \<Rightarrow> dflt | Some v \<Rightarrow> v)"

subsection \<open>\<open>extract_contact_info\<close>\<close>

definition newline :: uchar where
  "newline = L (CHR 0x0A)"

definition name_keywords :: "ustring list" where
  "name_keywords = map str [''resume'', ''cv'', ''curriculum'']"

text \<open>The loop over \<open>lines[:5]\<close>; it stops at the first line it accepts.\<close>

fun name_loop :: "ustring list \<Rightarrow> contact_info \<Rightarrow> contact_info" where
  "name_loop [] ci = ci"
| "name_loop (l # ls) ci =
     (let line = py_strip l in
        if line \<noteq> [] \<and> length (py_split line) \<le> 4 \<and> \<not> py_any py_isdigit line
        then
          if \<not> py_in (str ''@'') line \<and>
             \<not> py_any (\<lambda>keyword. py_in keyword (py_lower line)) name_keywords
          then ci\<lparr>name := Some line\<rparr>
          else name_loop ls ci
        else name_loop ls ci)"

definition extract_contact_info :: "ustring \<Rightarrow> contact_info" where
  "extract_contact_info text =
     (let ci0 = \<lparr>name = None, email = None, phone = None\<rparr>;
          ci1 = (case re_search email_pattern text of
                   Some m \<Rightarrow> ci0\<lparr>email := Some m\<rparr> | None \<Rightarrow> ci0);
          ci2 = (case re_search phone_pattern text of
                   Some m \<Rightarrow> ci1\<lparr>phone := Some m\<rparr> | None \<Rightarrow> ci1);
          lines = py_split_on newline text
      in name_loop (take 5 lines) ci2)"

subsection \<open>\<open>extract_skills\<close>\<close>

fun skills_loop :: "ustring \<Rightarrow> ustring list \<Rightarrow> ustring list \<Rightarrow> ustring list" where
  "skills_loop text_lower [] found_skills = found_skills"
| "skills_loop text_lower (skill # rest) found_skills =
     (if py_in (py_lower skill) text_lower
      then skills_loop text_lower rest (found_skills @ [skill])
      else skills_loop text_lower rest found_skills)"

text \<open>
  The result is \<open>list(set(found_skills))\<close>. The order in which Python enumerates a set of
  strings is not fixed by the language, so the conversion is a parameter \<open>list_set\<close> of
  the model; what is known of it is that it lists every element once.
\<close>

definition set_lister :: "(ustring list \<Rightarrow> ustring list) \<Rightarrow> bool" where
  "set_lister list_set = (\<forall>xs. distinct (list_set xs) \<and> set (list_set xs) = set xs)"

definition extract_skills :: "(ustring list \<Rightarrow> ustring list) \<Rightarrow> ustring \<Rightarrow> ustring list" where
  "extract_skills list_set text = list_set (skills_loop (py_lower text) tech_skills [])"

subsection \<open>\<open>extract_experience\<close>\<close>

text \<open>
  Sentences come from NLTK's \<open>sent_tokenize\<close>, a library outside the repository; it is
  a parameter of the model. The call either returns the list of sentences or raises, and
  what it raises leaves the extractor. A match is the tuple of its groups, and
  \<open>match[0]\<close>, \<open>match[1]\<close> index it.
\<close>

fun matches_loop :: "ustring \<Rightarrow> ustring list list \<Rightarrow> pydict list \<Rightarrow> error + pydict list" where
  "matches_loop sentence [] experience = Inr experience"
| "matches_loop sentence (match # rest) experience =
     (case py_index match 0 of Inl e \<Rightarrow> Inl e | Inr g0 \<Rightarrow>
      case py_index match 1 of Inl e \<Rightarrow> Inl e | Inr g1 \<Rightarrow>
        matches_loop sentence rest
          (experience @
             [[(''period'', g0 @ str '' - '' @ g1),
               (''description'', py_strip sentence)]]))"

fun patterns_loop :: "ustring \<Rightarrow> rx list \<Rightarrow> pydict list \<Rightarrow> error + pydict list" where
  "patterns_loop sentence [] experience = Inr experience"
| "patterns_loop sentence (pattern # rest) experience =
     (let matches = re_findall_groups pattern sentence in
        if matches \<noteq> []
        then (case matches_loop sentence matches experience of
                Inl e \<Rightarrow> Inl e
              | Inr experience' \<Rightarrow> patterns_loop sentence rest experience')
        else patterns_loop sentence rest experience)"

fun experience_loop :: "ustring list \<Rightarrow> pydict list \<Rightarrow> error + pydict list" where
  "experience_loop [] experience = Inr experience"
| "experience_loop (sentence # rest) experience =
     (case patterns_loop sentence experience_patterns experience of
        Inl e \<Rightarrow> Inl e
      | Inr experience' \<Rightarrow> experience_loop rest experience')"

definition extract_experience ::
  "(ustring \<Rightarrow> error + ustring list) \<Rightarrow> ustring \<Rightarrow> error + pydict list" where
  "extract_experience sent_tokenize text =
     (case sent_tokenize text of
        Inl e \<Rightarrow> Inl e
      | Inr sentences \<Rightarrow> experience_loop sentences [])"

subsection \<open>\<open>extract_education\<close>\<close>

fun education_loop :: "ustring list \<Rightarrow> pydict list \<Rightarrow> pydict list" where
  "education_loop [] education = education"
| "education_loop (sentence # rest) education =
     (let sentence_lower = py_lower sentence in
        if py_any (\<lambda>keyword. py_in keyword sentence_lower) education_keywords
        then education_loop rest (education @ [[(''description'', py_strip sentence)]])
        else education_loop rest education)"

definition extract_education ::
  "(ustring \<Rightarrow> error + ustring list) \<Rightarrow> ustring \<Rightarrow> error + pydict list" where
  "extract_education sent_tokenize text =
     (case sent_tokenize text of
        Inl e \<Rightarrow> Inl e
      | Inr sentences \<Rightarrow> Inr (education_loop sentences []))"

subsection \<open>\<open>calculate_experience_years\<close>\<close>

text \<open>
  The body of the \<open>try\<close> block: the difference of the two years, or the exception that
  one of its steps raises.
\<close>

definition end_year_of :: "ustring \<Rightarrow> error + int" where
  "end_year_of y = (if str_isdigit y then py_int y else Inr 2024)"

definition year_delta :: "ustring list \<Rightarrow> error + int" where
  "year_delta years =
     (case py_index years 0 of Inl e \<Rightarrow> Inl e | Inr y0 \<Rightarrow>
      case py_int y0 of Inl e \<Rightarrow> Inl e | Inr start_year \<Rightarrow>
      case py_index years 1 of Inl e \<Rightarrow> Inl e | Inr y1 \<Rightarrow>
      case end_year_of y1 of Inl e \<Rightarrow> Inl e | Inr end_year \<Rightarrow>
      Inr (end_year - start_year))"

text \<open>The loop over the entries; \<open>except: continue\<close> leaves the total as it is.\<close>

fun years_loop :: "pydict list \<Rightarrow> int \<Rightarrow> int" where
  "years_loop [] total_years = total_years"
| "years_loop (exp # rest) total_years =
     (let period = dict_get exp ''period'' [];
          years = re_findall year_pattern period
      in if length years \<ge> 2
         then (case year_delta years of
                 Inr d \<Rightarrow> years_loop rest (total_years + d)
               | Inl e \<Rightarrow> years_loop rest total_years)
         else years_loop rest total_years)"

definition calculate_experience_years :: "pydict list \<Rightarrow> int" where
  "calculate_experience_years experience = years_loop experience 0"

subsection \<open>\<open>parse_resume\<close>\<close>

text \<open>
  The five calls in the order of the source; an exception of the tokenizer inside
  \<open>extract_experience\<close> or \<open>extract_education\<close> ends the call.
\<close>

record parsed_data =
  contact_info :: contact_info
  skills :: "ustring list"
  experience :: "pydict list"
  education :: "pydict list"
  experience_years :: int

definition parse_resume ::
  "(ustring \<Rightarrow> error + ustring list) \<Rightarrow> (ustring list \<Rightarrow> ustring list) \<Rightarrow> ustring
     \<Rightarrow> error + parsed_data" where
  "parse_resume sent_tokenize list_set text =
     (let contact_info = extract_contact_info text;
          skills = extract_skills list_set text
      in case extract_experience sent_tokenize text of
           Inl e \<Rightarrow> Inl e
         | Inr experience' \<Rightarrow>
             (case extract_education sent_tokenize text of
                Inl e \<Rightarrow> Inl e
              | Inr education' \<Rightarrow>
                  (let experience_years = calculate_experience_years experience'
                   in Inr \<lparr>contact_info = contact_info, skills = skills,
                           experience = experience', education = education',
                           experience_years = experience_years\<rparr>)))"

section \<open>Notions of the specification\<close>

text \<open>
  The 4-digit years of an entry's period, and what the entry adds to the total
  according to the specification: the second year minus the first when there are two,
  nothing otherwise.
\<close>

definition years_of :: "pydict \<Rightarrow> ustring list" where
  "years_of entry = re_findall year_pattern (dict_get entry ''period'' [])"

definition contribution :: "pydict \<Rightarrow> int" where
  "contribution entry =
     (let years = years_of entry in
        if 2 \<le> length years then decimal_val (years ! 1) - decimal_val (years ! 0) else 0)"

text \<open>An entry whose first two years, if it has two, are in order.\<close>

definition ordered_years :: "pydict \<Rightarrow> bool" where
  "ordered_years entry =
     (let years = years_of entry in
        length years < 2 \<or> decimal_val (years ! 0) \<le> decimal_val (years ! 1))"

text \<open>
  Two characters that are the same letter up to case: equal, or one the capital of the
  other (the capitals are \<open>A\<close>..\<open>Z\<close> and the accented capitals 0xC0..0xDE but for the
  multiplication sign; the small letter lies 32 code points above its capital).
  Case-insensitive containment: some substring of \<open>s\<close> is \<open>k\<close> letter by letter up to
  case.
\<close>

definition is_capital :: "uchar \<Rightarrow> bool" where
  "is_capital c =
     (code c \<in> {65..90} \<or> code c \<in> {192..222} - {215})"

definition same_letter :: "uchar \<Rightarrow> uchar \<Rightarrow> bool" where
  "same_letter c d =
     (c = d \<or> (is_capital c \<and> code d = code c + 32) \<or> (is_capital d \<and> code c = code d + 32))"

definition contains_ci :: "ustring \<Rightarrow> ustring \<Rightarrow> bool" where
  "contains_ci k s = (\<exists>w. sublist w s \<and> list_all2 same_letter w k)"

text \<open>A trimmed line that the specification accepts as a name.\<close>

definition name_ok :: "ustring \<Rightarrow> bool" where
  "name_ok line =
     (line \<noteq> [] \<and> length (py_split line) \<le> 4 \<and> (\<forall>c\<in>set line. \<not> py_isdigit c) \<and>
      L CHR ''@'' \<notin> set line \<and> (\<forall>k\<in>set name_keywords. \<not> contains_ci k line))"



text \<open>
  The pairs of the texts of groups 1 and 2 over the matches of a pattern; the entry of
  one date-range match in a sentence; and the entries of a sentence: those of the
  year-year pattern, then those of the month/year pattern.
\<close>

definition re_findall2 :: "rx \<Rightarrow> ustring \<Rightarrow> (ustring \<times> ustring) list" where
  "re_findall2 r s = map (\<lambda>(m, g). (group g 1, group g 2)) (scan r 0 None s)"

definition experience_entry :: "ustring \<Rightarrow> ustring \<times> ustring \<Rightarrow> pydict" where
  "experience_entry sentence m =
     [(''period'', fst m @ str '' - '' @ snd m), (''description'', py_strip sentence)]"

definition sentence_entries :: "ustring \<Rightarrow> pydict list" where
  "sentence_entries sentence =
     map (experience_entry sentence) (re_findall2 year_range_pattern sentence) @
     map (experience_entry sentence) (re_findall2 month_range_pattern sentence)"

definition education_entry :: "ustring \<Rightarrow> pydict" where
  "education_entry sentence = [(''description'', py_strip sentence)]"

definition has_education_keyword :: "ustring \<Rightarrow> bool" where
  "has_education_keyword sentence =
     (\<exists>keyword\<in>set education_keywords. sublist keyword (py_lower sentence))"

text \<open>
  For running the parser on examples: a call of the tokenizer that returns the given
  sentences, and \<open>remdups\<close> as the enumeration of a set.
\<close>

definition tokenized_as :: "ustring list \<Rightarrow> ustring \<Rightarrow> error + ustring list" where
  "tokenized_as sentences text = Inr sentences"

section \<open>Facts about the matcher\<close>

lemma snd_advance: "snd (advance k p s) = drop k s"
  by (induction k p s rule: advance.induct) auto

lemma take_le_takeWhile:
  assumes "k \<le> length (takeWhile P s)"
  shows "take k s = take k (takeWhile P s)"
proof -
  have "take k (takeWhile P s) = take k (take (length (takeWhile P s)) s)"
    by (simp add: takeWhile_eq_take[symmetric])
  also have "\<dots> = take k s"
    using assms by (simp add: min_def)
  finally show ?thesis by simp
qed

lemma in_cls_Digit: "in_cls [Digit] c = is_decimal c"
  by simp

text \<open>A match of \<open>\d{4}\<close> is four decimal digits.\<close>

lemma match_here_year:
  assumes "match_here year_pattern p s = Some (m, g)"
  shows "length m = 4 \<and> (\<forall>c\<in>set m. is_decimal c)"
proof -
  let ?n = "length (takeWhile (in_cls [Digit]) s)"
  have n4: "4 \<le> ?n"
  proof (rule ccontr)
    assume "\<not> 4 \<le> ?n"
    then have "min ?n 4 < 4" by simp
    then have "rmatch year_pattern (p, s, []) = []"
      by (simp add: year_pattern_def Let_def)
    with assms show False by (simp add: match_here_def)
  qed
  then have mn: "min ?n 4 = 4" by simp
  have len: "4 \<le> length s"
    using n4 length_takeWhile_le[of "in_cls [Digit]" s] by linarith
  have "rmatch year_pattern (p, s, []) = [(fst (advance 4 p s), drop 4 s, [])]"
    using mn n4 snd_advance[of 4 p s]
    by (auto simp add: year_pattern_def Let_def split: prod.splits)
  with assms have m: "m = take 4 s"
    using len by (simp add: match_here_def)
  have "take 4 s = take 4 (takeWhile (in_cls [Digit]) s)"
    using n4 by (rule take_le_takeWhile)
  then have "set m \<subseteq> set (takeWhile (in_cls [Digit]) s)"
    using m by (metis set_take_subset)
  then have "\<forall>c\<in>set m. is_decimal c"
    using set_takeWhileD[of _ "in_cls [Digit]" s] by fastforce
  with m len show ?thesis by simp
qed

text \<open>What holds of every match at a position holds of every match the scan reports.\<close>

lemma scan_all:
  assumes "\<And>p s m g. match_here r p s = Some (m, g) \<Longrightarrow> P m"
  shows "(m, g) \<in> set (scan r k p s) \<Longrightarrow> P m"
proof -
  have flip: "\<And>p s m g. Some (m, g) = match_here r p s \<Longrightarrow> P m"
    using assms by metis
  show "(m, g) \<in> set (scan r k p s) \<Longrightarrow> P m"
    using assms flip
    by (induction r k p s rule: scan.induct) (auto split: option.splits)
qed

lemma findall_year:
  "y \<in> set (re_findall year_pattern period) \<Longrightarrow> length y = 4 \<and> (\<forall>c\<in>set y. is_decimal c)"
  unfolding re_findall_def
  using scan_all[where r = year_pattern and P = "\<lambda>m. length m = 4 \<and> (\<forall>c\<in>set m. is_decimal c)"]
    match_here_year
  by fastforce

section \<open>The experience aggregator\<close>

subsection \<open>Years found by the year pattern convert without error\<close>

lemma decimal_not_space: "is_decimal c \<Longrightarrow> \<not> int_isspace c"
  by (auto simp: is_decimal_def int_isspace_def Let_def)

lemma decimal_isdigit: "is_decimal c \<Longrightarrow> py_isdigit c"
  by (auto simp: is_decimal_def py_isdigit_def Let_def)

lemma decimal_not_sign: "is_decimal c \<Longrightarrow> c \<noteq> L CHR ''-'' \<and> c \<noteq> L CHR ''+''"
  by (auto simp: is_decimal_def Let_def)

lemma py_any_iff: "py_any P xs \<longleftrightarrow> (\<exists>x\<in>set xs. P x)"
  by (induction xs) auto

lemma strip_no_space:
  assumes "s \<noteq> []" "\<not> int_isspace (hd s)" "\<not> int_isspace (last s)"
  shows "int_strip s = s"
proof -
  have a: "dropWhile int_isspace s = s"
    using assms(1,2) by (cases s) auto
  have "rev s \<noteq> []" "\<not> int_isspace (hd (rev s))"
    using assms(1,3) by (simp_all add: hd_rev)
  then have "dropWhile int_isspace (rev s) = rev s"
    by (cases "rev s") auto
  with a show ?thesis by (simp add: int_strip_def)
qed

lemma digits_ok_decimal:
  "\<forall>c\<in>set s. is_decimal c \<Longrightarrow> digits_ok b s = (b \<or> s \<noteq> [])"
  by (induction s arbitrary: b) auto

lemma py_int_decimal:
  assumes "s \<noteq> []" "\<forall>c\<in>set s. is_decimal c"
  shows "py_int s = Inr (decimal_val s)"
proof -
  obtain c t where s: "s = c # t" using assms(1) by (cases s) auto
  have "is_decimal (hd s)" "is_decimal (last s)"
    using assms by auto
  then have "int_strip s = s"
    using assms(1) by (intro strip_no_space decimal_not_space) auto
  moreover have "c \<noteq> L CHR ''-''" "c \<noteq> L CHR ''+''"
    using decimal_not_sign[of c] assms(2) s by auto
  moreover have "digits_ok False s" using digits_ok_decimal[OF assms(2)] assms(1) by simp
  moreover have "filter is_decimal s = s" using assms(2) by (simp add: filter_id_conv)
  ultimately show ?thesis
    by (simp add: py_int_def parse_digits_def s)
qed

lemma str_isdigit_decimal:
  "s \<noteq> [] \<Longrightarrow> \<forall>c\<in>set s. is_decimal c \<Longrightarrow> str_isdigit s"
  by (auto simp: str_isdigit_def py_any_iff decimal_isdigit)

lemma year_string:
  assumes "y \<in> set (re_findall year_pattern period)"
  shows "str_isdigit y" "py_int y = Inr (decimal_val y)" "end_year_of y = Inr (decimal_val y)"
proof -
  from findall_year[OF assms] have "y \<noteq> []" "\<forall>c\<in>set y. is_decimal c" by auto
  then show "str_isdigit y" "py_int y = Inr (decimal_val y)"
    by (simp_all add: str_isdigit_decimal py_int_decimal)
  then show "end_year_of y = Inr (decimal_val y)" by (simp add: end_year_of_def)
qed

lemma year_delta_found:
  assumes "years = re_findall year_pattern period" "2 \<le> length years"
  shows "year_delta years = Inr (decimal_val (years ! 1) - decimal_val (years ! 0))"
proof -
  have "years ! 0 \<in> set years" "years ! 1 \<in> set years"
    using assms(2) by (auto intro!: nth_mem)
  moreover have "0 < length years" "1 < length years"
    using assms(2) by auto
  ultimately show ?thesis
    using year_string(2,3)[of _ period]
    unfolding assms(1)[symmetric]
    by (simp add: year_delta_def py_index_def)
qed

lemma years_loop_sum: "years_loop exps acc = acc + sum_list (map contribution exps)"
proof (induction exps arbitrary: acc)
  case Nil
  show ?case by simp
next
  case (Cons e exps)
  show ?case
  proof (cases "2 \<le> length (years_of e)")
    case True
    then have "year_delta (years_of e) =
        Inr (decimal_val (years_of e ! 1) - decimal_val (years_of e ! 0))"
      using year_delta_found[of "years_of e" "dict_get e ''period'' []"]
      by (simp add: years_of_def)
    with True Cons show ?thesis
      by (simp add: contribution_def Let_def years_of_def[symmetric])
  next
    case False
    with Cons show ?thesis
      by (simp add: contribution_def Let_def years_of_def[symmetric])
  qed
qed

lemma contribution_nonneg: "ordered_years e \<Longrightarrow> 0 \<le> contribution e"
  by (auto simp: ordered_years_def contribution_def Let_def)


text \<open>
  C1. The claim is that a single entry with period \<open>2020 - present\<close> counts as
  \<open>2024 - 2020 = 4\<close> years. In the code the year pattern finds only one year in that
  period, so the entry is skipped and the total is 0. The entry is one the experience
  extractor itself produces.
\<close>

theorem C1_open_ended_period_counts_zero:
  "extract_experience (tokenized_as [str ''Engineer, 2020 - present''])
       (str ''Engineer, 2020 - present'') =
     Inr [[(''period'', str ''2020 - present''),
           (''description'', str ''Engineer, 2020 - present'')]] \<and>
   re_findall year_pattern (str ''2020 - present'') = [str ''2020''] \<and>
   calculate_experience_years
     [[(''period'', str ''2020 - present''),
       (''description'', str ''Engineer, 2020 - present'')]] = 0"
  by code_simp

text \<open>
  C2. The claim is that the total is never negative. It fails: the code adds
  \<open>end - start\<close> as it is, so a period whose years are out of order lowers the total.
\<close>

theorem C2_reversed_period_is_negative:
  "calculate_experience_years
     [[(''period'', str ''2022 - 2018''), (''description'', str ''Intern, 2022 - 2018'')]] = - 4"
  by code_simp

text \<open>
  C2, amended. The total is an integer, and it is non-negative whenever every entry that
  has two 4-digit years in its period has them in order.
\<close>

theorem C2_nonnegative_when_ordered:
  assumes "\<forall>e\<in>set exps. ordered_years e"
  shows "0 \<le> calculate_experience_years exps"
proof -
  have "0 \<le> sum_list (map contribution exps)"
    using assms by (intro sum_list_nonneg) (auto simp: contribution_nonneg)
  then show ?thesis
    by (simp add: calculate_experience_years_def years_loop_sum)
qed

theorem C2_nonnegative_when_ordered_witness:
  "ordered_years [(''period'', str ''2018 - 2022'')] \<and>
   ordered_years [(''period'', str ''2020 - present'')] \<and>
   0 \<le> calculate_experience_years
          [[(''period'', str ''2018 - 2022'')], [(''period'', str ''2020 - present'')]]"
proof -
  have a: "ordered_years [(''period'', str ''2018 - 2022'')]"
    by code_simp
  have b: "ordered_years [(''period'', str ''2020 - present'')]"
    by code_simp
  have "\<forall>e\<in>set [[(''period'', str ''2018 - 2022'')], [(''period'', str ''2020 - present'')]].
      ordered_years e"
    using a b by simp
  then show ?thesis
    using a b C2_nonnegative_when_ordered by blast
qed

text \<open>
  C3. For every list of entries the total is the sum, over the entries, of the second
  4-digit year of the period minus the first one, an entry with fewer than two 4-digit
  years counting for nothing; a single entry with period \<open>2018 - 2022\<close> gives 4.
\<close>

theorem C3_total_is_sum_of_year_differences:
  "calculate_experience_years exps = sum_list (map contribution exps) \<and>
   calculate_experience_years
     [[(''period'', str ''2018 - 2022''), (''description'', str ''Engineer, 2018 - 2022'')]] = 4"
proof
  show "calculate_experience_years exps = sum_list (map contribution exps)"
    by (simp add: calculate_experience_years_def years_loop_sum)
  show "calculate_experience_years
     [[(''period'', str ''2018 - 2022''), (''description'', str ''Engineer, 2018 - 2022'')]] = 4"
    by code_simp
qed

theorem C3_total_is_sum_of_year_differences_witness:
  "sum_list (map contribution
     [[(''period'', str ''2018 - 2022'')], [(''period'', str ''since 2021'')],
      [(''period'', str ''03/2019 - 11/2021'')], [(''description'', str ''no period'')]]) = 6"
proof -
  have "calculate_experience_years
     [[(''period'', str ''2018 - 2022'')], [(''period'', str ''since 2021'')],
      [(''period'', str ''03/2019 - 11/2021'')], [(''description'', str ''no period'')]] = 6"
    by code_simp
  then show ?thesis
    using C3_total_is_sum_of_year_differences
      [of "[[(''period'', str ''2018 - 2022'')], [(''period'', str ''since 2021'')],
            [(''period'', str ''03/2019 - 11/2021'')], [(''description'', str ''no period'')]]"]
    by simp
qed

text \<open>
  C10. In \<open>calculate_experience_years\<close> the fallback 2024 cannot be reached: every string
  the year pattern returns consists of decimal digits, so when two years are found the
  test \<open>years[1].isdigit()\<close> holds, the end year is the second year read as an integer,
  and no step of the \<open>try\<close> block raises.
\<close>

theorem C10_fallback_unreachable:
  assumes "years = re_findall year_pattern (dict_get entry ''period'' [])"
    and "2 \<le> length years"
  shows "(\<forall>y\<in>set years. length y = 4 \<and> (\<forall>c\<in>set y. is_decimal c) \<and> str_isdigit y) \<and>
         end_year_of (years ! 1) = py_int (years ! 1) \<and>
         py_int (years ! 1) = Inr (decimal_val (years ! 1)) \<and>
         year_delta years = Inr (decimal_val (years ! 1) - decimal_val (years ! 0))"
proof -
  have mem: "years ! 1 \<in> set (re_findall year_pattern (dict_get entry ''period'' []))"
    using assms by (auto intro!: nth_mem)
  have "\<forall>y\<in>set years. length y = 4 \<and> (\<forall>c\<in>set y. is_decimal c) \<and> str_isdigit y"
    using findall_year year_string(1) unfolding assms(1) by blast
  moreover have "end_year_of (years ! 1) = py_int (years ! 1)"
    using year_string(2,3)[OF mem] by simp
  moreover have "py_int (years ! 1) = Inr (decimal_val (years ! 1))"
    using year_string(2)[OF mem] .
  moreover have "year_delta years = Inr (decimal_val (years ! 1) - decimal_val (years ! 0))"
    using assms by (rule year_delta_found)
  ultimately show ?thesis by blast
qed

theorem C10_fallback_unreachable_witness:
  "re_findall year_pattern (dict_get [(''period'', str ''2018 - 2022'')] ''period'' [])
     = [str ''2018'', str ''2022''] \<and>
   str_isdigit (str ''2022'') \<and> end_year_of (str ''2022'') = Inr 2022 \<and>
   year_delta [str ''2018'', str ''2022''] = Inr 4"
proof -
  have f: "re_findall year_pattern (dict_get [(''period'', str ''2018 - 2022'')] ''period'' [])
      = [str ''2018'', str ''2022'']"
    by code_simp
  have l: "2 \<le> length [str ''2018'', str ''2022'']" by simp
  have d: "decimal_val (str ''2022'') = 2022" "decimal_val (str ''2018'') = 2018"
    by code_simp+
  note t = C10_fallback_unreachable[OF f[symmetric] l]
  show ?thesis
    using t f d by simp
qed

section \<open>Substring tests and case\<close>

lemma code_L_bound: "code (L a) \<noteq> 8211"
proof -
  have "(of_char a :: nat) < 256" by simp
  then have "(of_char a :: nat) \<noteq> 8211" by linarith
  then show ?thesis by simp
qed

lemma code_inj: "code c = code d \<longleftrightarrow> c = d"
proof (cases c; cases d)
  fix a assume "c = L a" "d = EnDash"
  then show ?thesis using code_L_bound[of a] by simp
next
  fix b assume "c = EnDash" "d = L b"
  then show ?thesis using code_L_bound[of b] by (simp add: eq_commute)
qed auto

text \<open>\<open>str.lower\<close> identifies exactly the characters that are the same letter up to case.\<close>

lemma code_lower: "code (lower_char c) = (if is_capital c then code c + 32 else code c)"
proof (cases c)
  case (L a)
  have "(of_char a + 32) mod 256 = (of_char a + 32 :: nat)" if "of_char a \<le> (222::nat)"
    using that by simp
  then show ?thesis
    using L by (auto simp: lower_char_def is_capital_def Let_def)
next
  case EnDash
  then show ?thesis by (simp add: lower_char_def is_capital_def)
qed

lemma lower_same: "lower_char c = lower_char d \<longleftrightarrow> same_letter c d"
proof -
  have "lower_char c = lower_char d \<longleftrightarrow> code (lower_char c) = code (lower_char d)"
    by (simp add: code_inj)
  also have "\<dots> \<longleftrightarrow> same_letter c d"
    unfolding code_lower same_letter_def
    using code_inj[of c d]
    by (auto simp: is_capital_def)
  finally show ?thesis .
qed

lemma map_eq_all2: "map f xs = map f ys \<longleftrightarrow> list_all2 (\<lambda>x y. f x = f y) xs ys"
proof (induction xs arbitrary: ys)
  case Nil
  show ?case by simp
next
  case (Cons x xs)
  show ?case using Cons by (cases ys) auto
qed

lemma lower_eq_same: "py_lower w = py_lower k \<longleftrightarrow> list_all2 same_letter w k"
  by (simp add: py_lower_def map_eq_all2 lower_same)

lemma startswith_prefix: "startswith s sub \<longleftrightarrow> prefix sub s"
  by (induction s sub rule: startswith.induct) auto

lemma py_in_sublist: "py_in sub s \<longleftrightarrow> sublist sub s"
  by (induction s) (auto simp: startswith_prefix sublist_Cons_right)

lemma sublist_map_iff:
  "sublist (map f v) (map f t) \<longleftrightarrow> (\<exists>w. sublist w t \<and> map f w = map f v)"
proof
  assume "sublist (map f v) (map f t)"
  then obtain ps ss where "map f t = ps @ map f v @ ss"
    by (auto simp: sublist_def)
  then obtain t1 t2 t3 where "t = t1 @ t2 @ t3" "map f t2 = map f v"
    by (metis map_eq_append_conv)
  then show "\<exists>w. sublist w t \<and> map f w = map f v"
    by (auto simp: sublist_def)
next
  assume "\<exists>w. sublist w t \<and> map f w = map f v"
  then obtain w ps ss where "t = ps @ w @ ss" "map f w = map f v"
    by (auto simp: sublist_def)
  then have "map f t = map f ps @ map f v @ map f ss" by simp
  then show "sublist (map f v) (map f t)"
    unfolding sublist_def by blast
qed

lemma contains_ci_iff: "contains_ci k s \<longleftrightarrow> py_in (py_lower k) (py_lower s)"
proof -
  have "py_in (py_lower k) (py_lower s) \<longleftrightarrow> (\<exists>w. sublist w s \<and> py_lower w = py_lower k)"
    by (simp add: py_in_sublist py_lower_def sublist_map_iff)
  then show ?thesis
    by (simp add: contains_ci_def lower_eq_same)
qed


section \<open>The contact extractor\<close>

lemma name_keywords_lower: "k \<in> set name_keywords \<Longrightarrow> py_lower k = k"
proof -
  have "\<forall>k\<in>set name_keywords. py_lower k = k" by code_simp
  then show "k \<in> set name_keywords \<Longrightarrow> py_lower k = k" by blast
qed

text \<open>The two nested tests of the loop body are the specification's conditions.\<close>

lemma name_test:
  "(line \<noteq> [] \<and> length (py_split line) \<le> 4 \<and> \<not> py_any py_isdigit line) \<and>
   (\<not> py_in (str ''@'') line \<and> \<not> py_any (\<lambda>keyword. py_in keyword (py_lower line)) name_keywords)
   \<longleftrightarrow> name_ok line"
proof -
  have at: "py_in (str ''@'') line \<longleftrightarrow> L CHR ''@'' \<in> set line"
    by (induction line) (auto simp: str_def)
  have kw: "py_any (\<lambda>keyword. py_in keyword (py_lower line)) name_keywords
        \<longleftrightarrow> (\<exists>k\<in>set name_keywords. contains_ci k line)"
    by (auto simp: py_any_iff contains_ci_iff name_keywords_lower)
  show ?thesis
    unfolding name_ok_def at kw by (auto simp: py_any_iff)
qed

lemma name_loop_find:
  "name (name_loop ls ci) =
     (case find name_ok (map py_strip ls) of None \<Rightarrow> name ci | Some line \<Rightarrow> Some line)"
proof (induction ls)
  case Nil
  show ?case by simp
next
  case (Cons l ls)
  show ?case
    using Cons name_test[of "py_strip l"]
    by (auto simp: Let_def)
qed


text \<open>
  C5. The extracted name is the first of the text's first 5 lines that, once trimmed, is
  non-empty, has at most 4 whitespace-separated words, no digit, no \<open>@\<close>, and contains
  none of \<open>resume\<close>, \<open>cv\<close>, \<open>curriculum\<close> in any casing; it is \<open>None\<close> when there is
  no such line among them.
\<close>

theorem C5_name_is_first_acceptable_line:
  "name (extract_contact_info text) =
     find name_ok (map py_strip (take 5 (py_split_on newline text)))"
  by (simp add: extract_contact_info_def Let_def name_loop_find split: option.splits)

theorem C5_name_is_first_acceptable_line_witness:
  "find name_ok (map py_strip (take 5 (py_split_on newline
      (str ''  John Smith '' @ [newline] @ str ''Software Engineer'')))) = Some (str ''John Smith'') \<and>
   find name_ok (map py_strip (take 5 (py_split_on newline
      (str ''CURRICULUM VITAE'' @ [newline] @ str ''jane@roe.org'' @ [newline] @ str ''Jane Roe''))))
     = Some (str ''Jane Roe'') \<and>
   find name_ok (map py_strip (take 5 (py_split_on newline
      (str ''My resume'' @ [newline] @ str ''Phone 555'' @ [newline] @ str ''a b c d e'')))) = None"
proof -
  have "name (extract_contact_info (str ''  John Smith '' @ [newline] @ str ''Software Engineer''))
      = Some (str ''John Smith'')"
    by code_simp
  moreover have "name (extract_contact_info
      (str ''CURRICULUM VITAE'' @ [newline] @ str ''jane@roe.org'' @ [newline] @ str ''Jane Roe''))
      = Some (str ''Jane Roe'')"
    by code_simp
  moreover have "name (extract_contact_info
      (str ''My resume'' @ [newline] @ str ''Phone 555'' @ [newline] @ str ''a b c d e'')) = None"
    by code_simp
  ultimately show ?thesis
    by (simp only: C5_name_is_first_acceptable_line)
qed

subsection \<open>Email and phone\<close>

















section \<open>The skills extractor\<close>

lemma skills_loop_filter:
  "skills_loop low vs acc = acc @ filter (\<lambda>v. py_in (py_lower v) low) vs"
  by (induction vs arbitrary: acc) auto

lemma count_list_distinct: "distinct xs \<Longrightarrow> x \<in> set xs \<Longrightarrow> count_list xs x = 1"
  by (induction xs) (auto simp: count_list_0_iff)

lemma set_lister_remdups: "set_lister remdups"
  by (simp add: set_lister_def)

lemma skills_distinct: "set_lister list_set \<Longrightarrow> distinct (extract_skills list_set t)"
  by (simp add: set_lister_def extract_skills_def)

lemma skills_member:
  "set_lister list_set \<Longrightarrow>
     v \<in> set (extract_skills list_set t) \<longleftrightarrow> v \<in> set tech_skills \<and> contains_ci v t"
  by (auto simp: set_lister_def extract_skills_def skills_loop_filter contains_ci_iff)

text \<open>
  C7. Whatever the order in which the set is enumerated, the skills list has no
  duplicates, and a vocabulary entry is in it exactly when it occurs in the text up to
  case; a text that mentions both \<open>Python\<close> and \<open>python\<close> yields \<open>python\<close> once, and so
  does a text that has it in capitals only.
\<close>

theorem C7_skills_distinct_and_exact:
  assumes "set_lister list_set"
  shows "distinct (extract_skills list_set text) \<and>
         (\<forall>v. v \<in> set (extract_skills list_set text) \<longleftrightarrow>
                v \<in> set tech_skills \<and> contains_ci v text) \<and>
         count_list (extract_skills list_set (str ''Python developer; python and SQL''))
           (str ''python'') = 1 \<and>
         count_list (extract_skills list_set (str ''PYTHON and Java'')) (str ''python'') = 1"
proof -
  have v: "str ''python'' \<in> set tech_skills"
    by code_simp
  have "py_in (py_lower (str ''python'')) (py_lower (str ''Python developer; python and SQL''))"
    by code_simp
  then have "contains_ci (str ''python'') (str ''Python developer; python and SQL'')"
    by (simp only: contains_ci_iff)
  with v have "str ''python'' \<in> set tech_skills \<and>
      contains_ci (str ''python'') (str ''Python developer; python and SQL'')"
    by (rule conjI)
  then have "str ''python'' \<in>
      set (extract_skills list_set (str ''Python developer; python and SQL''))"
    by (simp only: skills_member[OF assms])
  with skills_distinct[OF assms]
  have c1: "count_list (extract_skills list_set (str ''Python developer; python and SQL''))
      (str ''python'') = 1"
    by (rule count_list_distinct)
  have "py_in (py_lower (str ''python'')) (py_lower (str ''PYTHON and Java''))"
    by code_simp
  then have "contains_ci (str ''python'') (str ''PYTHON and Java'')"
    by (simp only: contains_ci_iff)
  with v have "str ''python'' \<in> set tech_skills \<and>
      contains_ci (str ''python'') (str ''PYTHON and Java'')"
    by (rule conjI)
  then have "str ''python'' \<in> set (extract_skills list_set (str ''PYTHON and Java''))"
    by (simp only: skills_member[OF assms])
  with skills_distinct[OF assms]
  have c2: "count_list (extract_skills list_set (str ''PYTHON and Java'')) (str ''python'') = 1"
    by (rule count_list_distinct)
  show ?thesis
  proof (intro conjI allI)
    show "distinct (extract_skills list_set text)"
      using assms by (rule skills_distinct)
    show "\<And>v. v \<in> set (extract_skills list_set text) \<longleftrightarrow>
                v \<in> set tech_skills \<and> contains_ci v text"
      using assms by (rule skills_member)
    show "count_list (extract_skills list_set (str ''Python developer; python and SQL''))
           (str ''python'') = 1" by (rule c1)
    show "count_list (extract_skills list_set (str ''PYTHON and Java'')) (str ''python'') = 1"
      by (rule c2)
  qed
qed

theorem C7_skills_distinct_and_exact_witness:
  "set_lister remdups \<and>
   contains_ci (str ''java'') (str ''PYTHON and Java'') \<and>
   str ''java'' \<in> set (extract_skills remdups (str ''PYTHON and Java'')) \<and>
   distinct (extract_skills remdups (str ''PYTHON and Java'')) \<and>
   count_list (extract_skills remdups (str ''PYTHON and Java'')) (str ''python'') = 1"
proof -
  note t = C7_skills_distinct_and_exact[OF set_lister_remdups, of "str ''PYTHON and Java''"]
  note dist = t[THEN conjunct1]
  note mem = t[THEN conjunct2, THEN conjunct1, THEN spec, of "str ''java''"]
  note once = t[THEN conjunct2, THEN conjunct2, THEN conjunct2]
  have "str ''PYTHON and Java'' = str ''PYTHON and '' @ str ''Java'' @ []"
    by (simp add: str_def)
  then have s: "sublist (str ''Java'') (str ''PYTHON and Java'')"
    unfolding sublist_def by (intro exI)
  have l: "list_all2 same_letter (str ''Java'') (str ''java'')"
    by (simp add: str_def same_letter_def is_capital_def)
  have c: "contains_ci (str ''java'') (str ''PYTHON and Java'')"
    unfolding contains_ci_def using s l by (intro exI[of _ "str ''Java''"] conjI)
  have "str ''java'' \<in> set tech_skills"
    by code_simp
  then have "str ''java'' \<in> set tech_skills \<and> contains_ci (str ''java'') (str ''PYTHON and Java'')"
    using c by (rule conjI)
  with mem have m: "str ''java'' \<in> set (extract_skills remdups (str ''PYTHON and Java''))"
    by (rule iffD2)
  show ?thesis
    using set_lister_remdups c m dist once by (intro conjI)
qed

section \<open>The experience and education extractors\<close>

text \<open>
  Both date-range patterns have two groups, so every match is a pair and the indexing in
  the loop body does not raise.
\<close>

lemma pair_groups:
  assumes "ngroups r = 2"
  shows "re_findall_groups r s = map (\<lambda>(a, b). [a, b]) (re_findall2 r s)"
proof -
  have "[1 ..< Suc 2] = [1, 2 :: nat]"
    by (simp add: upt_rec)
  then show ?thesis
    using assms by (simp add: re_findall_groups_def re_findall2_def split_def)
qed

lemma ngroups_patterns: "ngroups year_range_pattern = 2" "ngroups month_range_pattern = 2"
  by code_simp+

lemma matches_loop_pairs:
  "matches_loop sentence (map (\<lambda>(a, b). [a, b]) ms) acc
     = Inr (acc @ map (experience_entry sentence) ms)"
  by (induction ms arbitrary: acc)
     (auto simp: experience_entry_def py_index_def split: prod.splits)

lemma patterns_loop_pairs:
  assumes "\<forall>p\<in>set ps. ngroups p = 2"
  shows "patterns_loop sentence ps acc =
     Inr (acc @ concat (map (\<lambda>p. map (experience_entry sentence) (re_findall2 p sentence)) ps))"
  using assms
proof (induction ps arbitrary: acc)
  case Nil
  show ?case by simp
next
  case (Cons p ps)
  then have g: "re_findall_groups p sentence = map (\<lambda>(a, b). [a, b]) (re_findall2 p sentence)"
    by (simp add: pair_groups)
  show ?case
    using Cons by (simp add: g Let_def matches_loop_pairs)
qed

lemma experience_loop_entries:
  "experience_loop ss acc = Inr (acc @ concat (map sentence_entries ss))"
proof (induction ss arbitrary: acc)
  case Nil
  show ?case by simp
next
  case (Cons s ss)
  have "patterns_loop s experience_patterns acc = Inr (acc @ sentence_entries s)"
    using patterns_loop_pairs[of experience_patterns s acc] ngroups_patterns
    by (simp add: experience_patterns_def sentence_entries_def)
  then show ?case using Cons by simp
qed

text \<open>
  C8. The experience extractor emits, sentence by sentence in the tokenizer's order, one
  entry per date-range match: first the matches of the year-year pattern, then those of
  the month/year pattern; each entry has the period \<open>g1 - g2\<close> of its match and the
  trimmed sentence as description, so the entries of one sentence share their
  description. (When the tokenizer raises, so does the extractor.)
\<close>

theorem C8_experience_entries_per_match:
  "extract_experience sent_tokenize text =
     (case sent_tokenize text of
        Inl e \<Rightarrow> Inl e
      | Inr sentences \<Rightarrow> Inr (concat (map sentence_entries sentences)))"
  by (simp add: extract_experience_def experience_loop_entries split: sum.splits)

theorem C8_experience_entries_per_match_witness:
  "concat (map sentence_entries
     [str ''  From 01/2017 - 12/2017 at Acme and 2018 '' @ [EnDash] @ str '' 2020 at Beta in Paris.'',
      str ''I like tea.'',
      str ''Then a consultant 2020-Present at Gamma.'']) =
   [[(''period'', str ''2018 - 2020''),
     (''description'',
      str ''From 01/2017 - 12/2017 at Acme and 2018 '' @ [EnDash] @ str '' 2020 at Beta in Paris.'')],
    [(''period'', str ''01/2017 - 12/2017''),
     (''description'',
      str ''From 01/2017 - 12/2017 at Acme and 2018 '' @ [EnDash] @ str '' 2020 at Beta in Paris.'')],
    [(''period'', str ''2020 - Present''),
     (''description'', str ''Then a consultant 2020-Present at Gamma.'')]]"
proof -
  let ?ss = "[str ''  From 01/2017 - 12/2017 at Acme and 2018 '' @ [EnDash] @
                str '' 2020 at Beta in Paris.'',
              str ''I like tea.'',
              str ''Then a consultant 2020-Present at Gamma.'']"
  let ?t = "str ''  From 01/2017 - 12/2017 at Acme and 2018 '' @ [EnDash] @
        str '' 2020 at Beta in Paris. I like tea. Then a consultant 2020-Present at Gamma.''"
  have a: "extract_experience (tokenized_as ?ss) ?t =
   Inr [[(''period'', str ''2018 - 2020''),
     (''description'',
      str ''From 01/2017 - 12/2017 at Acme and 2018 '' @ [EnDash] @ str '' 2020 at Beta in Paris.'')],
    [(''period'', str ''01/2017 - 12/2017''),
     (''description'',
      str ''From 01/2017 - 12/2017 at Acme and 2018 '' @ [EnDash] @ str '' 2020 at Beta in Paris.'')],
    [(''period'', str ''2020 - Present''),
     (''description'', str ''Then a consultant 2020-Present at Gamma.'')]]"
    by code_simp
  have b: "extract_experience (tokenized_as ?ss) ?t = Inr (concat (map sentence_entries ?ss))"
    by (simp only: C8_experience_entries_per_match tokenized_as_def sum.case)
  from b[symmetric] a have "Inr (concat (map sentence_entries ?ss)) =
   (Inr [[(''period'', str ''2018 - 2020''),
     (''description'',
      str ''From 01/2017 - 12/2017 at Acme and 2018 '' @ [EnDash] @ str '' 2020 at Beta in Paris.'')],
    [(''period'', str ''01/2017 - 12/2017''),
     (''description'',
      str ''From 01/2017 - 12/2017 at Acme and 2018 '' @ [EnDash] @ str '' 2020 at Beta in Paris.'')],
    [(''period'', str ''2020 - Present''),
     (''description'', str ''Then a consultant 2020-Present at Gamma.'')]] :: error + pydict list)"
    by (rule trans)
  then show ?thesis
    by (simp only: sum.inject)
qed

lemma education_loop_append:
  "education_loop ss acc = acc @ map education_entry (filter has_education_keyword ss)"
  by (induction ss arbitrary: acc)
     (auto simp: Let_def py_any_iff py_in_sublist has_education_keyword_def education_entry_def)

text \<open>
  C9. The education extractor returns, in the tokenizer's order, exactly one entry with
  the trimmed sentence for each sentence whose lowercased text contains an education
  keyword as a substring, however many keywords it contains, and none for the others.
  (When the tokenizer raises, so does the extractor.)
\<close>

theorem C9_education_one_entry_per_matching_sentence:
  "extract_education sent_tokenize text =
     (case sent_tokenize text of
        Inl e \<Rightarrow> Inl e
      | Inr sentences \<Rightarrow> Inr (map education_entry (filter has_education_keyword sentences)))"
  by (simp add: extract_education_def education_loop_append split: sum.splits)

theorem C9_education_one_entry_per_matching_sentence_witness:
  "map education_entry (filter has_education_keyword
     [str ''  Bachelor of Science in Computer Science, State University.'',
      str ''Worked at Acme.'',
      str ''MBA in 2019.'']) =
   [[(''description'', str ''Bachelor of Science in Computer Science, State University.'')],
    [(''description'', str ''MBA in 2019.'')]]"
proof -
  let ?ss = "[str ''  Bachelor of Science in Computer Science, State University.'',
      str ''Worked at Acme.'',
      str ''MBA in 2019.'']"
  let ?t = "str ''  Bachelor of Science in Computer Science, State University. Worked at Acme. MBA in 2019.''"
  have a: "extract_education (tokenized_as ?ss) ?t =
   Inr [[(''description'', str ''Bachelor of Science in Computer Science, State University.'')],
    [(''description'', str ''MBA in 2019.'')]]"
    by code_simp
  have b: "extract_education (tokenized_as ?ss) ?t =
      Inr (map education_entry (filter has_education_keyword ?ss))"
    by (simp only: C9_education_one_entry_per_matching_sentence tokenized_as_def sum.case)
  from b[symmetric] a have "Inr (map education_entry (filter has_education_keyword ?ss)) =
   (Inr [[(''description'', str ''Bachelor of Science in Computer Science, State University.'')],
    [(''description'', str ''MBA in 2019.'')]] :: error + pydict list)"
    by (rule trans)
  then show ?thesis
    by (simp only: sum.inject)
qed

section \<open>The orchestrator\<close>





text \<open>What the tokenizer raises leaves \<open>parse_resume\<close>.\<close>

lemma parse_resume_tokenizer_error:
  "sent_tokenize t = Inl e \<Longrightarrow> parse_resume sent_tokenize list_set t = Inl e"
  by (simp add: parse_resume_def extract_experience_def Let_def)




text \<open>
  A full example: a resume of four lines that the tokenizer returns as three sentences.
\<close>

lemma parse_resume_example:
  "parse_resume
     (tokenized_as
        [str ''John Smith'' @ [newline] @ str ''jane.doe@example.com, (415) 555-2671'' @
           [newline] @ str ''Python developer at Acme from 2018 '' @ [EnDash] @
           str '' 2022 in Paris.'',
         str ''Before that an intern 2022 - 2018 in Rome.'',
         str ''B.Sc from State University.''])
     remdups
     (str ''John Smith'' @ [newline] @ str ''jane.doe@example.com, (415) 555-2671'' @
        [newline] @ str ''Python developer at Acme from 2018 '' @ [EnDash] @
        str '' 2022 in Paris. Before that an intern 2022 - 2018 in Rome.'' @ [newline] @
        str ''B.Sc from State University.'') =
   Inr \<lparr>contact_info =
          \<lparr>name = Some (str ''John Smith''), email = Some (str ''jane.doe@example.com''),
           phone = Some (str ''(415) 555-2671'')\<rparr>,
        skills = [str ''python''],
        experience =
          [[(''period'', str ''2018 - 2022''),
            (''description'',
             str ''John Smith'' @ [newline] @ str ''jane.doe@example.com, (415) 555-2671'' @
               [newline] @ str ''Python developer at Acme from 2018 '' @ [EnDash] @
               str '' 2022 in Paris.'')],
           [(''period'', str ''2022 - 2018''),
            (''description'', str ''Before that an intern 2022 - 2018 in Rome.'')]],
        education = [[(''description'', str ''B.Sc from State University.'')]],
        experience_years = 0\<rparr>"
  by code_simp


end
